theory Spec2Isabelle
  imports Complex_Main
begin

section \<open>Birding Suggester: the search form and results view\<close>

text \<open>
  A shallow embedding of \<^verbatim>\<open>client/src/App.tsx\<close>. The component keeps eleven
  \<^verbatim>\<open>useState\<close> cells; they are the fields of one record, every setter call is a field
  update, and every event handler is a function from the state before the event to the
  state after it.

  Conventions.
  \<^item> A JavaScript string is a \<open>string\<close>; one \<open>char\<close> stands for one UTF-16 code unit, so
    only code units up to U+00FF are covered and \<open>length\<close> is \<^verbatim>\<open>.length\<close>.
  \<^item> A JavaScript number is a \<open>number\<close>: \<open>NaN\<close>, the two infinities, or a finite value given
    by the rational it denotes. The sign of zero is not represented. The component does no
    arithmetic of its own; where it reads a number from decimal text, the reading, which
    is where binary rounding happens, is left to the host.
  \<^item> \<^verbatim>\<open>null\<close> and \<^verbatim>\<open>undefined\<close> are \<open>None\<close>.
\<close>

subsection \<open>Data model\<close>

datatype number = NaN | Infinity | NegInfinity | Finite rat

record Coordinates =
  lat :: number
  lng :: number

record HotspotActivity =
  checklistCount :: number
  observationCount :: number
  lastObservationDate :: "string option"
  score :: number

text \<open>The hotspot's own \<^verbatim>\<open>distanceKm\<close> is \<open>distanceKm_hotspot\<close>: the view state has a cell of
  the same name.\<close>

record Hotspot =
  locId :: string
  name :: string
  latitude :: number
  longitude :: number
  countryCode :: string
  regionCode :: string
  distanceKm_hotspot :: "number option"
  url :: string
  activity :: HotspotActivity

datatype mode = Random | Top

record AppState =
  mode :: mode
  distanceKm :: number
  postalCode :: string
  coords :: "Coordinates option"
  loading :: bool
  geolocating :: bool
  error :: "string option"
  status :: "string option"
  randomHotspot :: "Hotspot option"
  topHotspots :: "Hotspot list"
  hasFetched :: bool

text \<open>The initial values given to \<^verbatim>\<open>useState\<close> (lines 31 to 41).\<close>

definition initialState :: AppState where
  "initialState =
     \<lparr>mode = Random, distanceKm = Finite 25, postalCode = [], coords = None,
      loading = False, geolocating = False, error = None, status = None,
      randomHotspot = None, topHotspots = [], hasFetched = False\<rparr>"

subsection \<open>The host: strings, numbers, the network, the location service\<close>

text \<open>\<^verbatim>\<open>String.prototype.trim\<close> removes white space and line terminators at both ends. Among the
  code units up to U+00FF these are TAB, LF, VT, FF, CR, SPACE and NO-BREAK SPACE.\<close>

definition isWhiteSpace :: "char \<Rightarrow> bool" where
  "isWhiteSpace c = ((of_char c :: nat) \<in> {9, 10, 11, 12, 13, 32, 160})"

definition trim :: "string \<Rightarrow> string" where
  "trim s = rev (dropWhile isWhiteSpace (rev (dropWhile isWhiteSpace s)))"

text \<open>The class \<^verbatim>\<open>\D\<close> of a regular expression without the unicode flag is every code unit
  other than the ten ASCII digits.\<close>

definition isDigit :: "char \<Rightarrow> bool" where
  "isDigit c = (c \<in> set ''0123456789'')"

text \<open>The text \<^verbatim>\<open>x.toFixed(4)\<close> returns. \<^verbatim>\<open>NaN\<close> and the infinities are printed by name and a
  value of magnitude \<open>10\<^sup>2\<^sup>1\<close> or more in full, as \<^verbatim>\<open>toString\<close> prints them: \<open>Verbatim x\<close>, text
  that \<^verbatim>\<open>Number\<close> reads back as \<open>x\<close>. Every other value is printed as a decimal numeral with
  four fraction digits: behind the sign, the integer \<open>n\<close> for which \<open>n / 10\<^sup>4\<close> is nearest to the
  magnitude, the larger \<open>n\<close> on a tie. \<open>Decimal d\<close> is that numeral, given by the rational \<open>d\<close>
  it denotes.\<close>

datatype printed = Verbatim number | Decimal rat

definition toFixed4 :: "number \<Rightarrow> printed" where
  "toFixed4 x =
     (case x of
        Finite q \<Rightarrow>
          if 10 ^ 21 \<le> \<bar>q\<bar> then Verbatim (Finite q)
          else Decimal (sgn q * of_int \<lfloor>\<bar>q\<bar> * 10 ^ 4 + 1 / 2\<rfloor> / 10 ^ 4)
      | _ \<Rightarrow> Verbatim x)"

text \<open>\<^verbatim>\<open>URLSearchParams\<close> is an ordered list of name and value pairs. \<^verbatim>\<open>set\<close> overwrites the
  first pair of that name and drops the later ones, or appends a new pair.\<close>

type_synonym URLSearchParams = "(string \<times> string) list"

definition params_set :: "string \<Rightarrow> string \<Rightarrow> URLSearchParams \<Rightarrow> URLSearchParams" where
  "params_set k v ps =
     (if k \<in> fst ` set ps
      then takeWhile (\<lambda>p. fst p \<noteq> k) ps @ (k, v) #
           filter (\<lambda>p. fst p \<noteq> k) (tl (dropWhile (\<lambda>p. fst p \<noteq> k) ps))
      else ps @ [(k, v)])"

text \<open>\<^verbatim>\<open>URLSearchParams.prototype.toString\<close> is the \<^verbatim>\<open>application/x-www-form-urlencoded\<close>
  serialiser: ASCII letters and digits and \<^verbatim>\<open>* - . _\<close> stay, a space becomes \<^verbatim>\<open>+\<close>, and every
  other byte of the UTF-8 encoding becomes \<^verbatim>\<open>%XX\<close>.\<close>

definition percentByte :: "nat \<Rightarrow> string" where
  "percentByte n = [CHR ''%'', ''0123456789ABCDEF'' ! (n div 16), ''0123456789ABCDEF'' ! (n mod 16)]"

definition urlencodeUnit :: "char \<Rightarrow> string" where
  "urlencodeUnit c =
     (let n = (of_char c :: nat) in
      if c \<in> set ''ABCDEFGHIJKLMNOPQRSTUVWXYZabcdefghijklmnopqrstuvwxyz0123456789*-._'' then [c]
      else if n = 32 then ''+''
      else if n < 128 then percentByte n
      else percentByte (192 + n div 64) @ percentByte (128 + n mod 64))"

definition urlencode :: "string \<Rightarrow> string" where
  "urlencode s = concat (map urlencodeUnit s)"

fun joinWith :: "string \<Rightarrow> string list \<Rightarrow> string" where
  "joinWith sep [] = []"
| "joinWith sep [x] = x"
| "joinWith sep (x # y # ys) = x @ sep @ joinWith sep (y # ys)"

definition params_toString :: "URLSearchParams \<Rightarrow> string" where
  "params_toString ps = joinWith ''&'' (map (\<lambda>(k, v). urlencode k @ ''='' @ urlencode v) ps)"

text \<open>What a \<^verbatim>\<open>catch\<close> clause can receive: an \<^verbatim>\<open>Error\<close> object with its message, or any other
  thrown value.\<close>

datatype thrown = Error string | NonError

text \<open>The payload as the server contract types it: an object whose fields \<^verbatim>\<open>message\<close>,
  \<^verbatim>\<open>hotspot\<close> and \<^verbatim>\<open>hotspots\<close> may each be absent.\<close>

record payload =
  message :: "string option"
  hotspot :: "Hotspot option"
  hotspots :: "Hotspot list option"

text \<open>\<^verbatim>\<open>await response.json()\<close> throws when the body is not JSON (\<open>Throws\<close>). A body that
  parses to \<^verbatim>\<open>null\<close> is \<open>Null msg\<close>: the first property read on it, which is the next thing
  each path of the code does (lines 86, 90 and 92), throws a \<^verbatim>\<open>TypeError\<close>, and \<open>msg\<close> is the
  message the host gives that error. Every other body is a \<open>Payload\<close>; one that parses to a
  number, a string, a boolean or an array has none of the three fields.\<close>

datatype body = Throws thrown | Null string | Payload payload

text \<open>\<^verbatim>\<open>await fetch(url)\<close> either rejects or resolves to a response with its \<^verbatim>\<open>ok\<close> flag.\<close>

datatype response = Rejects thrown | Resolves bool body

text \<open>The one-shot position query calls back with a position or with an error, whose
  \<^verbatim>\<open>message\<close> the code reads through \<^verbatim>\<open>??\<close>.\<close>

datatype position = Position number number | PositionError "string option"

text \<open>The environment of the component: the configured base URL (line 28),
  \<^verbatim>\<open>Number.prototype.toString\<close>, whose digits depend on the binary representation,
  \<^verbatim>\<open>Number\<close> applied to a decimal numeral, which yields the number of the host nearest to the
  value the numeral denotes, the server behind \<^verbatim>\<open>fetch\<close>, and \<^verbatim>\<open>navigator.geolocation\<close>,
  absent in a browser without the feature.\<close>

record env =
  API_BASE_URL :: string
  numberToString :: "number \<Rightarrow> string"
  readDecimal :: "rat \<Rightarrow> number"
  fetch :: "string \<Rightarrow> response"
  geolocation :: "position option"

text \<open>\<^verbatim>\<open>Number(t)\<close> for a text \<open>t\<close> that \<^verbatim>\<open>toFixed\<close> printed.\<close>

definition Number_printed :: "env \<Rightarrow> printed \<Rightarrow> number" where
  "Number_printed e t = (case t of Verbatim x \<Rightarrow> x | Decimal d \<Rightarrow> readDecimal e d)"

subsection \<open>Submitting a search\<close>

text \<open>\<^verbatim>\<open>buildQuery\<close> (lines 53 to 66), first as the parameter list, then serialised.\<close>

definition buildParams :: "env \<Rightarrow> AppState \<Rightarrow> URLSearchParams" where
  "buildParams e s =
     (let params = [(''distanceKm'', numberToString e (distanceKm s))] in
      case coords s of
        Some c \<Rightarrow>
          params_set ''lng'' (numberToString e (lng c))
            (params_set ''lat'' (numberToString e (lat c)) params)
      | None \<Rightarrow>
          if trim (postalCode s) \<noteq> [] then params_set ''postalCode'' (trim (postalCode s)) params
          else params)"

definition buildQuery :: "env \<Rightarrow> AppState \<Rightarrow> string" where
  "buildQuery e s = params_toString (buildParams e s)"

text \<open>The endpoint and the request URL (lines 82 and 83).\<close>

definition endpoint :: "mode \<Rightarrow> string" where
  "endpoint m = (if m = Random then ''hotspots/random'' else ''hotspots/top'')"

definition requestUrl :: "env \<Rightarrow> AppState \<Rightarrow> string" where
  "requestUrl e s = API_BASE_URL e @ ''/'' @ endpoint (mode s) @ ''?'' @ buildQuery e s"

text \<open>The five resets that open \<^verbatim>\<open>fetchHotspots\<close> (lines 69 to 73).\<close>

definition clearResults :: "AppState \<Rightarrow> AppState" where
  "clearResults s =
     s\<lparr>error := None, status := None, randomHotspot := None, topHotspots := [],
       hasFetched := False\<rparr>"

text \<open>The guard of line 75.\<close>

definition invalidLocation :: "AppState \<Rightarrow> bool" where
  "invalidLocation s = (coords s = None \<and> length (trim (postalCode s)) \<noteq> 5)"

text \<open>The body of the \<^verbatim>\<open>try\<close> block once \<^verbatim>\<open>fetch\<close> has settled (lines 84 to 94): \<open>Inl\<close> is
  the value thrown, \<open>Inr\<close> the state after normal completion. The mode is the one the
  handler closed over when it was invoked.\<close>

definition tryBlock :: "mode \<Rightarrow> response \<Rightarrow> AppState \<Rightarrow> thrown + AppState" where
  "tryBlock m r s =
     (case r of
        Rejects err \<Rightarrow> Inl err
      | Resolves ok b \<Rightarrow>
          (case b of
             Throws err \<Rightarrow> Inl err
           | Null msg \<Rightarrow> Inl (Error msg)
           | Payload p \<Rightarrow>
               if \<not> ok then
                 Inl (Error (case message p of Some msg \<Rightarrow> msg
                             | None \<Rightarrow> ''Unable to fetch hotspots.''))
               else
                 Inr ((if m = Random then s\<lparr>randomHotspot := hotspot p\<rparr>
                       else s\<lparr>topHotspots := (case hotspots p of Some hs \<Rightarrow> hs | None \<Rightarrow> [])\<rparr>)
                      \<lparr>hasFetched := True\<rparr>)))"

text \<open>\<^verbatim>\<open>catch\<close> and \<^verbatim>\<open>finally\<close> (lines 95 to 100).\<close>

definition settle :: "mode \<Rightarrow> response \<Rightarrow> AppState \<Rightarrow> AppState" where
  "settle m r s =
     (case tryBlock m r s of
        Inl err \<Rightarrow>
          s\<lparr>error := Some (case err of Error msg \<Rightarrow> msg | NonError \<Rightarrow> ''Unexpected error.'')\<rparr>
      | Inr s' \<Rightarrow> s')
     \<lparr>loading := False\<rparr>"

text \<open>\<^verbatim>\<open>fetchHotspots\<close> (lines 68 to 101), run to completion with no other event in between.
  The first component is the URL requested, \<open>None\<close> when no request is issued.\<close>

definition fetchHotspots :: "env \<Rightarrow> AppState \<Rightarrow> string option \<times> AppState" where
  "fetchHotspots e s =
     (let s0 = clearResults s in
      if invalidLocation s then
        (None, s0\<lparr>error := Some ''Enter a valid 5-digit ZIP code or allow location access.''\<rparr>)
      else
        (Some (requestUrl e s),
         settle (mode s) (fetch e (requestUrl e s)) (s0\<lparr>loading := True\<rparr>)))"

definition handleSubmit :: "env \<Rightarrow> AppState \<Rightarrow> string option \<times> AppState" where
  "handleSubmit e s = fetchHotspots e s"

subsection \<open>Locating the user\<close>

text \<open>The two callbacks handed to \<^verbatim>\<open>getCurrentPosition\<close> (lines 118 to 131) are the two cases
  of \<open>positionCallback\<close>; \<^verbatim>\<open>requestCurrentLocation\<close> (lines 107 to 137) is run to the
  callback with no other event in between.\<close>

definition positionCallback :: "env \<Rightarrow> position \<Rightarrow> AppState \<Rightarrow> AppState" where
  "positionCallback e p s =
     (case p of
        Position la lo \<Rightarrow>
          s\<lparr>coords := Some \<lparr>lat = Number_printed e (toFixed4 la),
                             lng = Number_printed e (toFixed4 lo)\<rparr>,
            postalCode := [],
            geolocating := False,
            status := Some ''Location locked in. Ready when you are!''\<rparr>
      | PositionError msg \<Rightarrow>
          s\<lparr>geolocating := False,
            status := None,
            error := Some (case msg of Some m \<Rightarrow> m | None \<Rightarrow> ''Unable to access your location.'')\<rparr>)"

definition requestCurrentLocation :: "env \<Rightarrow> AppState \<Rightarrow> AppState" where
  "requestCurrentLocation e s =
     (case geolocation e of
        None \<Rightarrow> s\<lparr>error := Some ''Geolocation is not supported in this browser.''\<rparr>
      | Some p \<Rightarrow>
          positionCallback e p
            (s\<lparr>geolocating := True, status := Some ''Requesting your location...'',
               error := None\<rparr>))"

subsection \<open>The form controls\<close>

text \<open>The effect that depends on \<^verbatim>\<open>mode\<close> (lines 139 to 145), and the two mode buttons
  (lines 159 and 162): setting a cell to the value it holds schedules no render, so the
  effect runs only when the mode changes.\<close>

definition modeEffect :: "AppState \<Rightarrow> AppState" where
  "modeEffect s =
     s\<lparr>randomHotspot := None, topHotspots := [], status := None, error := None,
       hasFetched := False\<rparr>"

definition setMode :: "mode \<Rightarrow> AppState \<Rightarrow> AppState" where
  "setMode m s = (if m = mode s then s else modeEffect (s\<lparr>mode := m\<rparr>))"

text \<open>The radius field (lines 176 to 179). The argument is \<^verbatim>\<open>Number(event.target.value)\<close>,
  the number the host reads from the text of the field. The attributes \<^verbatim>\<open>min\<close> and \<^verbatim>\<open>max\<close> of
  the field (lines 173 and 174) are not read by the handler.\<close>

definition onDistanceChange :: "number \<Rightarrow> AppState \<Rightarrow> AppState" where
  "onDistanceChange v s = s\<lparr>distanceKm := (if v = NaN then Finite 1 else v)\<rparr>"

text \<open>The ZIP field (lines 190 to 196). The argument is \<^verbatim>\<open>event.target.value\<close>. The
  attribute \<^verbatim>\<open>maxLength\<close> of the field (line 187) limits what the browser lets a user type; it
  is not read by the handler.\<close>

definition onPostalChange :: "string \<Rightarrow> AppState \<Rightarrow> AppState" where
  "onPostalChange raw s =
     (let v = filter isDigit raw; s' = s\<lparr>postalCode := v\<rparr> in
      if v \<noteq> [] then s'\<lparr>coords := None\<rparr> else s')"

subsection \<open>The view\<close>

text \<open>The error banner (line 212): nothing is rendered for \<^verbatim>\<open>null\<close> or the empty string.\<close>

definition errorBanner :: "AppState \<Rightarrow> string option" where
  "errorBanner s = (case error s of None \<Rightarrow> None | Some t \<Rightarrow> if t = [] then None else Some t)"



text \<open>The card of random mode (lines 215 to 248).\<close>

definition randomSection :: "AppState \<Rightarrow> Hotspot option" where
  "randomSection s = (if \<not> loading s \<and> mode s = Random then randomHotspot s else None)"

subsection \<open>Vocabulary of the properties\<close>

text \<open>A radius of at least one kilometre, as \<^verbatim>\<open>distanceKm >= 1\<close> decides it.\<close>

definition atLeastOne :: "number \<Rightarrow> bool" where
  "atLeastOne n = (case n of Finite q \<Rightarrow> 1 \<le> q | Infinity \<Rightarrow> True | _ \<Rightarrow> False)"

text \<open>\<open>r\<close> is \<open>q\<close> rounded to four decimal places: a whole number of ten-thousandths, at most
  half a ten-thousandth away from \<open>q\<close>.\<close>

definition roundedTo4 :: "rat \<Rightarrow> rat \<Rightarrow> bool" where
  "roundedTo4 q r = (of_int \<lfloor>r * 10 ^ 4\<rfloor> = r * 10 ^ 4 \<and> \<bar>r - q\<bar> \<le> 1 / (2 * 10 ^ 4))"

text \<open>A request that throws or comes back with an error status: \<^verbatim>\<open>fetch\<close> rejects, the body
  cannot be read or is \<^verbatim>\<open>null\<close>, or \<^verbatim>\<open>response.ok\<close> is false.\<close>

definition failed :: "response \<Rightarrow> bool" where
  "failed r =
     (case r of
        Rejects err \<Rightarrow> True
      | Resolves ok b \<Rightarrow>
          (case b of Throws err \<Rightarrow> True | Null msg \<Rightarrow> True | Payload p \<Rightarrow> \<not> ok))"

subsection \<open>Sample inputs\<close>

definition sampleToString :: "number \<Rightarrow> string" where
  "sampleToString n =
     (if n = Finite 25 then ''25''
      else if n = Finite (2815805298269225 / 70368744177664) then ''40.015''
      else if n = Finite (- (3703876441977389 / 35184372088832)) then ''-105.2705''
      else ''0'')"

text \<open>The two decimals of the samples as a host with binary doubles reads them: the doubles
  nearest to 40.015 and to -105.2705. The positions reported in the samples are doubles
  too, the ones nearest to 40.0149567 and to -105.2705499.\<close>

definition sampleRead :: "rat \<Rightarrow> number" where
  "sampleRead d =
     (if d = 8003 / 200 then Finite (2815805298269225 / 70368744177664)
      else if d = - (210541 / 2000) then Finite (- (3703876441977389 / 35184372088832))
      else Finite d)"

definition sampleEnv :: "response \<Rightarrow> position option \<Rightarrow> env" where
  "sampleEnv r g =
     \<lparr>API_BASE_URL = ''http://localhost:4000/api'', numberToString = sampleToString,
      readDecimal = sampleRead, fetch = (\<lambda>u. r), geolocation = g\<rparr>"

definition offline :: env where
  "offline = sampleEnv (Rejects (Error ''Failed to fetch'')) None"

definition zipState :: AppState where
  "zipState = initialState\<lparr>postalCode := ''80302''\<rparr>"

definition gpsState :: AppState where
  "gpsState =
     initialState\<lparr>coords := Some \<lparr>lat = Finite (2815805298269225 / 70368744177664),
                                   lng = Finite (- (3703876441977389 / 35184372088832))\<rparr>\<rparr>"

definition sawhillPonds :: Hotspot where
  "sawhillPonds =
     \<lparr>locId = ''L1'', name = ''Sawhill Ponds'',
      latitude = Finite (2815805298269225 / 70368744177664),
      longitude = Finite (- (3703876441977389 / 35184372088832)), countryCode = ''US'', regionCode = ''US-CO'',
      distanceKm_hotspot = None, url = ''https://ebird.org/hotspot/L1'',
      activity = \<lparr>checklistCount = Finite 3, observationCount = Finite 40,
                  lastObservationDate = None, score = Finite 46\<rparr>\<rparr>"

definition searchedState :: AppState where
  "searchedState =
     zipState\<lparr>status := Some ''Location locked in. Ready when you are!'',
              randomHotspot := Some sawhillPonds, topHotspots := [sawhillPonds],
              hasFetched := True\<rparr>"


definition invalidZipPayload :: payload where
  "invalidZipPayload = \<lparr>message = Some ''Invalid ZIP code'', hotspot = None, hotspots = None\<rparr>"


definition badGateway :: response where
  "badGateway = Resolves False (Throws (Error ''Unexpected token < in JSON at position 0''))"

definition nullBody :: response where
  "nullBody =
     Resolves False (Null ''Cannot read properties of null (reading 'message')'')"

definition sawhillPayload :: payload where
  "sawhillPayload = \<lparr>message = None, hotspot = Some sawhillPonds, hotspots = None\<rparr>"

section \<open>Properties\<close>

subsection \<open>Auxiliary facts\<close>

lemma zipState_valid: "\<not> invalidLocation zipState"
  by (simp add: invalidLocation_def zipState_def initialState_def trim_def isWhiteSpace_def)

lemma urlencode_keys:
  "urlencode ''distanceKm'' = ''distanceKm''" "urlencode ''lat'' = ''lat''"
  "urlencode ''lng'' = ''lng''" "urlencode ''postalCode'' = ''postalCode''"
  by (simp_all add: urlencode_def urlencodeUnit_def)

lemma buildParams_coords:
  "coords s = Some c \<Longrightarrow>
   buildParams e s =
     [(''distanceKm'', numberToString e (distanceKm s)),
      (''lat'', numberToString e (lat c)), (''lng'', numberToString e (lng c))]"
  by (simp add: buildParams_def params_set_def)

lemma buildParams_postal:
  "coords s = None \<Longrightarrow> trim (postalCode s) \<noteq> [] \<Longrightarrow>
   buildParams e s =
     [(''distanceKm'', numberToString e (distanceKm s)),
      (''postalCode'', trim (postalCode s))]"
  by (simp add: buildParams_def params_set_def)

lemma postalCode_onPostalChange: "postalCode (onPostalChange raw s) = filter isDigit raw"
  by (simp add: onPostalChange_def Let_def)

text \<open>The request depends on the mode, the radius and the location only.\<close>

lemma buildParams_results:
  "buildParams e (s\<lparr>error := er, status := st, randomHotspot := rh, topHotspots := th,
       hasFetched := hf\<rparr>) = buildParams e s"
  by (simp add: buildParams_def Let_def split: option.splits)

lemma requestUrl_results:
  "requestUrl e (s\<lparr>error := er, status := st, randomHotspot := rh, topHotspots := th,
       hasFetched := hf\<rparr>) = requestUrl e s"
  by (simp add: requestUrl_def buildQuery_def buildParams_results)

lemma invalidLocation_results:
  "invalidLocation (s\<lparr>error := er, status := st, randomHotspot := rh, topHotspots := th,
       hasFetched := hf\<rparr>) = invalidLocation s"
  by (simp add: invalidLocation_def)

lemma clearResults_results:
  "clearResults (s\<lparr>error := er, status := st, randomHotspot := rh, topHotspots := th,
       hasFetched := hf\<rparr>) = clearResults s"
  by (simp add: clearResults_def)

lemma fetchHotspots_results:
  "fetchHotspots e (s\<lparr>error := er, status := st, randomHotspot := rh, topHotspots := th,
       hasFetched := hf\<rparr>) = fetchHotspots e s"
  by (simp add: fetchHotspots_def requestUrl_results invalidLocation_results
      clearResults_results Let_def)

lemma settle_status: "status (settle m r s) = status s"
  by (simp add: settle_def tryBlock_def split: response.splits body.splits)

lemma settle_failed:
  assumes "failed r"
  shows "error (settle m r s) \<noteq> None"
    and "randomHotspot (settle m r s) = randomHotspot s"
    and "topHotspots (settle m r s) = topHotspots s"
    and "hasFetched (settle m r s) = hasFetched s"
  using assms
  by (simp_all add: settle_def tryBlock_def failed_def split: response.splits body.splits)

text \<open>Below \<open>10\<^sup>2\<^sup>1\<close> in magnitude, \<open>toFixed4\<close> rounds to four decimal places.\<close>

lemma toFixed4_rounds:
  assumes "\<bar>q\<bar> < 10 ^ 21"
  shows "\<exists>r. toFixed4 (Finite q) = Decimal r \<and> roundedTo4 q r"
proof -
  define n where "n = \<lfloor>\<bar>q\<bar> * 10 ^ 4 + 1 / 2\<rfloor>"
  define r where "r = sgn q * of_int n / 10 ^ 4"
  have t: "toFixed4 (Finite q) = Decimal r"
    using assms by (simp add: toFixed4_def r_def n_def)
  have lo: "of_int n \<le> \<bar>q\<bar> * 10 ^ 4 + 1 / 2"
    unfolding n_def by (rule of_int_floor_le)
  have hi: "\<bar>q\<bar> * 10 ^ 4 + 1 / 2 < of_int n + 1"
    unfolding n_def by linarith
  have "\<exists>k::int. r * 10 ^ 4 = of_int k"
  proof (cases "q < 0")
    case True
    then have "r * 10 ^ 4 = of_int (- n)" by (simp add: r_def)
    then show ?thesis ..
  next
    case False
    then have "r * 10 ^ 4 = of_int (if q = 0 then 0 else n)" by (simp add: r_def)
    then show ?thesis ..
  qed
  then obtain k :: int where i: "r * 10 ^ 4 = of_int k" ..
  have whole: "of_int \<lfloor>r * 10 ^ 4\<rfloor> = r * 10 ^ 4"
    unfolding i by simp
  have "\<bar>r - q\<bar> \<le> \<bar>of_int n / 10 ^ 4 - \<bar>q\<bar>\<bar>"
  proof (cases "q < 0")
    case True
    then have "r - q = - (of_int n / 10 ^ 4 - \<bar>q\<bar>)" by (simp add: r_def)
    then show ?thesis by simp
  next
    case False
    then have "r - q = (if q = 0 then 0 else of_int n / 10 ^ 4 - \<bar>q\<bar>)" by (simp add: r_def)
    then show ?thesis by simp
  qed
  moreover have "\<bar>of_int n / 10 ^ 4 - \<bar>q\<bar>\<bar> \<le> 1 / (2 * 10 ^ 4)"
  proof -
    have "of_int n \<le> \<bar>q\<bar> * 10000 + 1 / 2" and "\<bar>q\<bar> * 10000 + 1 / 2 < of_int n + 1"
      using lo hi by simp_all
    then have "\<bar>of_int n / 10000 - \<bar>q\<bar>\<bar> \<le> 1 / 20000" by linarith
    then show ?thesis by simp
  qed
  ultimately have "\<bar>r - q\<bar> \<le> 1 / (2 * 10 ^ 4)" by linarith
  with t whole show ?thesis by (auto simp: roundedTo4_def)
qed

lemma toFixed4_samples:
  "toFixed4 (Finite (1407901125651301 / 35184372088832)) = Decimal (8003 / 200)"
  "toFixed4 (Finite (- (7407756395355113 / 70368744177664))) = Decimal (- (210541 / 2000))"
  by code_simp+

lemma settle_succeeded:
  assumes "r = Resolves True (Payload p)"
  shows "error (settle m r s) = error s"
    and "hasFetched (settle m r s)"
    and "m = Random \<Longrightarrow> randomHotspot (settle m r s) = hotspot p"
    and "m = Random \<Longrightarrow> topHotspots (settle m r s) = topHotspots s"
    and "m = Top \<Longrightarrow> randomHotspot (settle m r s) = randomHotspot s"
    and "m = Top \<Longrightarrow>
         topHotspots (settle m r s) = (case hotspots p of Some hs \<Rightarrow> hs | None \<Rightarrow> [])"
  using assms by (simp_all add: settle_def tryBlock_def)

subsection \<open>Validation before the request\<close>

text \<open>
  Claim C1. In every state whose coordinates are \<^verbatim>\<open>null\<close> and whose trimmed postal code does
  not have length 5, the submit action issues no request and sets the error to the
  validation message.
\<close>

theorem fetchHotspots_invalid_location:
  assumes "coords s = None" and "length (trim (postalCode s)) \<noteq> 5"
  shows "fst (fetchHotspots e s) = None \<and>
         error (snd (fetchHotspots e s)) =
           Some ''Enter a valid 5-digit ZIP code or allow location access.''"
  using assms by (simp add: fetchHotspots_def invalidLocation_def Let_def)

theorem fetchHotspots_invalid_location_witness:
  "coords initialState = None \<and> length (trim (postalCode initialState)) \<noteq> 5 \<and>
   fst (fetchHotspots offline initialState) = None \<and>
   error (snd (fetchHotspots offline initialState)) =
     Some ''Enter a valid 5-digit ZIP code or allow location access.''"
proof -
  have a: "coords initialState = None"
    by (simp add: initialState_def)
  have b: "length (trim (postalCode initialState)) \<noteq> 5"
    by (simp add: initialState_def trim_def)
  show ?thesis
    using a b fetchHotspots_invalid_location [OF a b, of offline] by simp
qed

subsection \<open>The request\<close>

text \<open>
  Claim C2. A submit that passes validation requests the base URL followed by
  \<^verbatim>\<open>/hotspots/random?\<close> in random mode and \<^verbatim>\<open>/hotspots/top?\<close> in top mode, followed by the query
  string. The parameters of the query are \<^verbatim>\<open>distanceKm\<close>, \<^verbatim>\<open>lat\<close> and \<^verbatim>\<open>lng\<close> when
  coordinates are set, whatever the postal code holds, and \<^verbatim>\<open>distanceKm\<close> and
  \<^verbatim>\<open>postalCode\<close> when they are not.
\<close>

theorem fetchHotspots_request:
  assumes "\<not> invalidLocation s"
  shows "fst (fetchHotspots e s) =
           Some (API_BASE_URL e @ ''/'' @
                 (if mode s = Random then ''hotspots/random'' else ''hotspots/top'') @
                 ''?'' @ buildQuery e s) \<and>
         map fst (buildParams e s) =
           (case coords s of
              Some c \<Rightarrow> [''distanceKm'', ''lat'', ''lng'']
            | None \<Rightarrow> [''distanceKm'', ''postalCode'']) \<and>
         buildQuery e s =
           (case coords s of
              Some c \<Rightarrow>
                ''distanceKm='' @ urlencode (numberToString e (distanceKm s)) @
                ''&lat='' @ urlencode (numberToString e (lat c)) @
                ''&lng='' @ urlencode (numberToString e (lng c))
            | None \<Rightarrow>
                ''distanceKm='' @ urlencode (numberToString e (distanceKm s)) @
                ''&postalCode='' @ urlencode (trim (postalCode s)))"
proof (cases "coords s")
  case None
  with assms have ne: "trim (postalCode s) \<noteq> []"
    by (auto simp: invalidLocation_def)
  from assms show ?thesis
    by (simp add: fetchHotspots_def Let_def requestUrl_def endpoint_def buildQuery_def
        buildParams_postal [OF None ne] None params_toString_def urlencode_keys)
next
  case (Some c)
  from assms show ?thesis
    by (simp add: fetchHotspots_def Let_def requestUrl_def endpoint_def buildQuery_def
        buildParams_coords [OF Some] Some params_toString_def urlencode_keys)
qed

theorem fetchHotspots_request_witness:
  "\<not> invalidLocation zipState \<and>
   fst (fetchHotspots offline zipState) =
     Some ''http://localhost:4000/api/hotspots/random?distanceKm=25&postalCode=80302'' \<and>
   \<not> invalidLocation (gpsState\<lparr>mode := Top, postalCode := ''80302''\<rparr>) \<and>
   fst (fetchHotspots offline (gpsState\<lparr>mode := Top, postalCode := ''80302''\<rparr>)) =
     Some ''http://localhost:4000/api/hotspots/top?distanceKm=25&lat=40.015&lng=-105.2705''"
proof -
  let ?g = "gpsState\<lparr>mode := Top, postalCode := ''80302''\<rparr>"
  have v: "\<not> invalidLocation zipState"
    by (rule zipState_valid)
  have w: "\<not> invalidLocation ?g"
    by (simp add: invalidLocation_def gpsState_def)
  have q: "buildQuery offline zipState = ''distanceKm=25&postalCode=80302''"
    using fetchHotspots_request [OF v, of offline]
    by (simp add: zipState_def initialState_def offline_def sampleEnv_def sampleToString_def
        trim_def isWhiteSpace_def urlencode_def urlencodeUnit_def)
  have r: "buildQuery offline ?g = ''distanceKm=25&lat=40.015&lng=-105.2705''"
    using fetchHotspots_request [OF w, of offline]
    by (simp add: gpsState_def initialState_def offline_def sampleEnv_def sampleToString_def
        urlencode_def urlencodeUnit_def)
  have b: "API_BASE_URL offline = ''http://localhost:4000/api''"
    by (simp add: offline_def sampleEnv_def)
  have m: "mode zipState = Random" "mode ?g = Top"
    by (simp_all add: zipState_def initialState_def)
  show ?thesis
    using v w fetchHotspots_request [OF v, of offline] fetchHotspots_request [OF w, of offline]
    by (simp add: q r b m)
qed

subsection \<open>Error responses\<close>

text \<open>
  Claim C3, as amended. When the response has a non-success status and its body parses to
  a payload other than \<^verbatim>\<open>null\<close>, the error is the payload's \<^verbatim>\<open>message\<close> when it has one and
  \<^verbatim>\<open>Unable to fetch hotspots.\<close> when it has none; for the payload
  \<^verbatim>\<open>{message: "Invalid ZIP code"}\<close> the error banner reads exactly that text. When the body
  cannot be parsed, the error is the message of the exception \<^verbatim>\<open>response.json()\<close> throws, or
  \<^verbatim>\<open>Unexpected error.\<close> for a thrown value that is no \<^verbatim>\<open>Error\<close>; when the body parses to
  \<^verbatim>\<open>null\<close>, the error is the message of the \<^verbatim>\<open>TypeError\<close> that reading \<^verbatim>\<open>payload.message\<close>
  throws. The body is read before the status is looked at.
\<close>

theorem fetchHotspots_error_status:
  assumes "\<not> invalidLocation s"
    and "fetch e (requestUrl e s) = Resolves False b"
  shows "error (snd (fetchHotspots e s)) =
           Some (case b of
                   Payload p \<Rightarrow>
                     (case message p of Some msg \<Rightarrow> msg | None \<Rightarrow> ''Unable to fetch hotspots.'')
                 | Null msg \<Rightarrow> msg
                 | Throws err \<Rightarrow>
                     (case err of Error msg \<Rightarrow> msg | NonError \<Rightarrow> ''Unexpected error.'')) \<and>
         (\<forall>p. b = Payload p \<and> message p = Some ''Invalid ZIP code'' \<longrightarrow>
            errorBanner (snd (fetchHotspots e s)) = Some ''Invalid ZIP code'')"
  using assms
  by (simp add: fetchHotspots_def Let_def settle_def tryBlock_def errorBanner_def
      split: body.splits)

theorem fetchHotspots_error_status_witness:
  "\<not> invalidLocation zipState \<and>
   fetch (sampleEnv (Resolves False (Payload invalidZipPayload)) None)
     (requestUrl (sampleEnv (Resolves False (Payload invalidZipPayload)) None) zipState) =
     Resolves False (Payload invalidZipPayload) \<and>
   message invalidZipPayload = Some ''Invalid ZIP code'' \<and>
   error (snd (fetchHotspots (sampleEnv (Resolves False (Payload invalidZipPayload)) None)
     zipState)) = Some ''Invalid ZIP code'' \<and>
   errorBanner (snd (fetchHotspots (sampleEnv (Resolves False (Payload invalidZipPayload)) None)
     zipState)) = Some ''Invalid ZIP code'' \<and>
   fetch (sampleEnv nullBody None) (requestUrl (sampleEnv nullBody None) zipState) =
     Resolves False (Null ''Cannot read properties of null (reading 'message')'') \<and>
   error (snd (fetchHotspots (sampleEnv nullBody None) zipState)) =
     Some ''Cannot read properties of null (reading 'message')''"
proof -
  let ?e = "sampleEnv (Resolves False (Payload invalidZipPayload)) None"
  let ?n = "sampleEnv nullBody None"
  have f: "fetch ?e (requestUrl ?e zipState) = Resolves False (Payload invalidZipPayload)"
    by (simp add: sampleEnv_def)
  have g: "fetch ?n (requestUrl ?n zipState) =
      Resolves False (Null ''Cannot read properties of null (reading 'message')'')"
    by (simp add: sampleEnv_def nullBody_def)
  have m: "message invalidZipPayload = Some ''Invalid ZIP code''"
    by (simp add: invalidZipPayload_def)
  show ?thesis
    using zipState_valid f g m fetchHotspots_error_status [OF zipState_valid f]
      fetchHotspots_error_status [OF zipState_valid g]
    by simp
qed

text \<open>The claim as first stated promises the fallback text for every error response that
  carries no \<^verbatim>\<open>message\<close>. An error response whose body is not JSON carries none, and the
  error shown is the parser's.\<close>

theorem fetchHotspots_error_status_counterexample:
  "\<not> invalidLocation zipState \<and>
   fetch (sampleEnv badGateway None) (requestUrl (sampleEnv badGateway None) zipState) =
     Resolves False (Throws (Error ''Unexpected token < in JSON at position 0'')) \<and>
   error (snd (fetchHotspots (sampleEnv badGateway None) zipState)) =
     Some ''Unexpected token < in JSON at position 0'' \<and>
   error (snd (fetchHotspots (sampleEnv badGateway None) zipState)) \<noteq>
     Some ''Unable to fetch hotspots.''"
  using zipState_valid
  by (simp add: fetchHotspots_def Let_def settle_def tryBlock_def sampleEnv_def badGateway_def)

subsection \<open>The radius field\<close>

text \<open>
  Claim C4, as amended. A radius input whose value converts to \<^verbatim>\<open>NaN\<close> sets the radius to 1;
  every other value is stored as it is, so the radius after the event is at least 1 exactly
  when the value is \<^verbatim>\<open>NaN\<close> or is itself at least 1. No other cell changes.
\<close>

theorem onDistanceChange_value:
  "onDistanceChange v s = s\<lparr>distanceKm := (if v = NaN then Finite 1 else v)\<rparr> \<and>
   distanceKm (onDistanceChange NaN s) = Finite 1 \<and>
   atLeastOne (distanceKm (onDistanceChange v s)) = (v = NaN \<or> atLeastOne v)"
  by (simp add: onDistanceChange_def atLeastOne_def)

text \<open>The claim as first stated has every radius below 1 raised to 1. The entry \<^verbatim>\<open>0\<close> is
  stored as 0.\<close>

theorem onDistanceChange_counterexample:
  "distanceKm (onDistanceChange (Finite 0) initialState) = Finite 0 \<and>
   \<not> atLeastOne (distanceKm (onDistanceChange (Finite 0) initialState))"
  by (simp add: onDistanceChange_def atLeastOne_def)

subsection \<open>The ZIP field\<close>

text \<open>
  Claim C5, as amended. After a postal code input event the stored postal code is the raw
  text with every character other than a digit removed: it holds digits only and is no
  longer than the raw text, hence at most 5 long whenever the raw text is, which is what
  the field's \<^verbatim>\<open>maxLength\<close> of 5 allows to be typed.
\<close>

theorem onPostalChange_digits:
  "(\<forall>c \<in> set (postalCode (onPostalChange raw s)). c \<in> set ''0123456789'') \<and>
   postalCode (onPostalChange raw s) = filter (\<lambda>c. c \<in> set ''0123456789'') raw \<and>
   length (postalCode (onPostalChange raw s)) \<le> length raw \<and>
   (length raw \<le> 5 \<longrightarrow> length (postalCode (onPostalChange raw s)) \<le> 5)"
proof -
  have d: "isDigit = (\<lambda>c. c \<in> set ''0123456789'')"
    by (rule ext) (simp add: isDigit_def)
  have l: "length (filter isDigit raw) \<le> length raw"
    by simp
  show ?thesis
    unfolding postalCode_onPostalChange using l by (auto simp: d simp del: length_filter_le)
qed

theorem onPostalChange_digits_witness:
  "length ''8o 30'' \<le> 5 \<and> postalCode (onPostalChange ''8o 30'' initialState) = ''830'' \<and>
   set (postalCode (onPostalChange ''8o 30'' initialState)) = {CHR ''0'', CHR ''3'', CHR ''8''} \<and>
   length (postalCode (onPostalChange ''8o 30'' initialState)) \<le> 5"
  using onPostalChange_digits [of "''8o 30''" initialState] by auto

text \<open>The claim as first stated bounds the length by 5 whatever the raw text. The handler
  does not truncate: six digits are stored as six digits.\<close>

theorem onPostalChange_counterexample:
  "postalCode (onPostalChange ''123456'' initialState) = ''123456'' \<and>
   \<not> length (postalCode (onPostalChange ''123456'' initialState)) \<le> 5"
  by (simp add: onPostalChange_def isDigit_def Let_def)

subsection \<open>One location input at a time\<close>

text \<open>
  Claim C6. The success callback of the position query sets the coordinates and empties the
  postal code; a postal code input event that stores a non-empty value sets the
  coordinates to \<^verbatim>\<open>null\<close>. So after either transition, from any state, the coordinates and a
  non-empty postal code are never both present.
\<close>

theorem location_inputs_exclusive:
  "postalCode (positionCallback e (Position la lo) s) = [] \<and>
   coords (positionCallback e (Position la lo) s) \<noteq> None \<and>
   (postalCode (onPostalChange raw s) \<noteq> [] \<longrightarrow> coords (onPostalChange raw s) = None) \<and>
   \<not> (coords (positionCallback e (Position la lo) s) \<noteq> None \<and>
      postalCode (positionCallback e (Position la lo) s) \<noteq> []) \<and>
   \<not> (coords (onPostalChange raw s) \<noteq> None \<and> postalCode (onPostalChange raw s) \<noteq> [])"
  by (simp add: positionCallback_def onPostalChange_def Let_def)

theorem location_inputs_exclusive_witness:
  "coords gpsState \<noteq> None \<and> postalCode (onPostalChange ''80302'' gpsState) \<noteq> [] \<and>
   coords (onPostalChange ''80302'' gpsState) = None \<and>
   postalCode (positionCallback offline (Position (Finite 40) (Finite (- 105))) zipState) = []"
proof -
  have "postalCode (onPostalChange ''80302'' gpsState) \<noteq> []"
    by (simp add: postalCode_onPostalChange isDigit_def)
  moreover have "coords gpsState \<noteq> None"
    by (simp add: gpsState_def)
  ultimately show ?thesis
    using
      location_inputs_exclusive
        [where e = offline and la = "Finite 40" and lo = "Finite (- 105)" and s = gpsState
           and raw = "''80302''"]
      location_inputs_exclusive
        [where e = offline and la = "Finite 40" and lo = "Finite (- 105)" and s = zipState
           and raw = "''80302''"]
    by simp
qed

subsection \<open>Switching the mode\<close>

text \<open>
  Claim C7. A change of mode sets the random hotspot to \<^verbatim>\<open>null\<close>, the top hotspots to the
  empty list, status and error to \<^verbatim>\<open>null\<close> and \<^verbatim>\<open>hasFetched\<close> to false, and leaves radius,
  postal code and coordinates as they were.
\<close>

theorem setMode_resets:
  assumes "m \<noteq> mode s"
  shows "mode (setMode m s) = m \<and>
         randomHotspot (setMode m s) = None \<and> topHotspots (setMode m s) = [] \<and>
         status (setMode m s) = None \<and> error (setMode m s) = None \<and>
         hasFetched (setMode m s) = False \<and>
         distanceKm (setMode m s) = distanceKm s \<and> postalCode (setMode m s) = postalCode s \<and>
         coords (setMode m s) = coords s"
  using assms by (simp add: setMode_def modeEffect_def)

theorem setMode_resets_witness:
  "Top \<noteq> mode searchedState \<and> randomHotspot searchedState = Some sawhillPonds \<and>
   mode (setMode Top searchedState) = Top \<and>
   randomHotspot (setMode Top searchedState) = None \<and>
   topHotspots (setMode Top searchedState) = [] \<and>
   status (setMode Top searchedState) = None \<and> error (setMode Top searchedState) = None \<and>
   hasFetched (setMode Top searchedState) = False \<and>
   distanceKm (setMode Top searchedState) = Finite 25 \<and>
   postalCode (setMode Top searchedState) = ''80302'' \<and>
   coords (setMode Top searchedState) = None"
proof -
  have m: "Top \<noteq> mode searchedState"
    by (simp add: searchedState_def zipState_def initialState_def)
  show ?thesis
    using m setMode_resets [OF m]
    by (simp add: searchedState_def zipState_def initialState_def)
qed

subsection \<open>The two empty states of top mode\<close>




subsection \<open>Locating the user\<close>

text \<open>
  Claim C9. When the position query succeeds, the coordinates become the reported latitude
  and longitude, each printed by \<^verbatim>\<open>toFixed(4)\<close> and read back by \<^verbatim>\<open>Number\<close>: for a value below
  \<open>10\<^sup>2\<^sup>1\<close> in magnitude the text printed is the value rounded to four decimal places, and the
  number stored is the host's reading of that decimal. The postal code is emptied, the
  status is the confirmation message and \<^verbatim>\<open>geolocating\<close> is false. When the query fails with a
  message, the error is that message, the status is \<^verbatim>\<open>null\<close> and \<^verbatim>\<open>geolocating\<close> is false.
\<close>

theorem requestCurrentLocation_outcome:
  "(geolocation e = Some (Position la lo) \<longrightarrow>
      coords (requestCurrentLocation e s) =
        Some \<lparr>lat = Number_printed e (toFixed4 la), lng = Number_printed e (toFixed4 lo)\<rparr> \<and>
      postalCode (requestCurrentLocation e s) = [] \<and>
      status (requestCurrentLocation e s) = Some ''Location locked in. Ready when you are!'' \<and>
      geolocating (requestCurrentLocation e s) = False) \<and>
   (\<bar>q\<bar> < 10 ^ 21 \<longrightarrow>
      (\<exists>r. toFixed4 (Finite q) = Decimal r \<and> roundedTo4 q r \<and>
           Number_printed e (toFixed4 (Finite q)) = readDecimal e r)) \<and>
   (geolocation e = Some (PositionError (Some msg)) \<longrightarrow>
      error (requestCurrentLocation e s) = Some msg \<and>
      status (requestCurrentLocation e s) = None \<and>
      geolocating (requestCurrentLocation e s) = False)"
proof -
  have "\<exists>r. toFixed4 (Finite q) = Decimal r \<and> roundedTo4 q r \<and>
          Number_printed e (toFixed4 (Finite q)) = readDecimal e r"
    if "\<bar>q\<bar> < 10 ^ 21"
  proof -
    from toFixed4_rounds [OF that] obtain r
      where "toFixed4 (Finite q) = Decimal r" and "roundedTo4 q r"
      by blast
    then show ?thesis
      by (simp add: Number_printed_def)
  qed
  then show ?thesis
    by (simp add: requestCurrentLocation_def positionCallback_def)
qed

theorem requestCurrentLocation_outcome_witness:
  "geolocation (sampleEnv badGateway
      (Some (Position (Finite (1407901125651301 / 35184372088832)) (Finite (- (7407756395355113 / 70368744177664)))))) =
     Some (Position (Finite (1407901125651301 / 35184372088832)) (Finite (- (7407756395355113 / 70368744177664)))) \<and>
   coords (requestCurrentLocation (sampleEnv badGateway
      (Some (Position (Finite (1407901125651301 / 35184372088832)) (Finite (- (7407756395355113 / 70368744177664))))))
      zipState) =
     Some \<lparr>lat = Finite (2815805298269225 / 70368744177664),
           lng = Finite (- (3703876441977389 / 35184372088832))\<rparr> \<and>
   postalCode (requestCurrentLocation (sampleEnv badGateway
      (Some (Position (Finite (1407901125651301 / 35184372088832)) (Finite (- (7407756395355113 / 70368744177664))))))
      zipState) = [] \<and>
   \<bar>1407901125651301 / 35184372088832 :: rat\<bar> < 10 ^ 21 \<and>
   toFixed4 (Finite (1407901125651301 / 35184372088832)) = Decimal (8003 / 200) \<and>
   roundedTo4 (1407901125651301 / 35184372088832) (8003 / 200) \<and>
   geolocation (sampleEnv badGateway (Some (PositionError (Some ''User denied Geolocation'')))) =
     Some (PositionError (Some ''User denied Geolocation'')) \<and>
   error (requestCurrentLocation
      (sampleEnv badGateway (Some (PositionError (Some ''User denied Geolocation''))))
      (zipState\<lparr>geolocating := True\<rparr>)) = Some ''User denied Geolocation'' \<and>
   geolocating (requestCurrentLocation
      (sampleEnv badGateway (Some (PositionError (Some ''User denied Geolocation''))))
      (zipState\<lparr>geolocating := True\<rparr>)) = False"
proof -
  let ?la = "Finite (1407901125651301 / 35184372088832)"
  let ?lo = "Finite (- (7407756395355113 / 70368744177664))"
  let ?e = "sampleEnv badGateway (Some (Position ?la ?lo))"
  let ?d = "sampleEnv badGateway (Some (PositionError (Some ''User denied Geolocation'')))"
  have g: "geolocation ?e = Some (Position ?la ?lo)"
    by (simp add: sampleEnv_def)
  have h: "geolocation ?d = Some (PositionError (Some ''User denied Geolocation''))"
    by (simp add: sampleEnv_def)
  have b: "\<bar>1407901125651301 / 35184372088832 :: rat\<bar> < 10 ^ 21"
    by simp
  have rd: "readDecimal (sampleEnv x y) = sampleRead" for x y
    by (simp add: sampleEnv_def)
  note success =
    requestCurrentLocation_outcome
      [where e = ?e and la = ?la and lo = ?lo and s = zipState and q = "1407901125651301 / 35184372088832"]
  from success g have c: "coords (requestCurrentLocation ?e zipState) =
      Some \<lparr>lat = Finite (2815805298269225 / 70368744177664),
            lng = Finite (- (3703876441977389 / 35184372088832))\<rparr> \<and>
    postalCode (requestCurrentLocation ?e zipState) = []"
    by (simp add: toFixed4_samples Number_printed_def rd sampleRead_def)
  from success b obtain r
    where r: "toFixed4 (Finite (1407901125651301 / 35184372088832)) = Decimal r"
      and rr: "roundedTo4 (1407901125651301 / 35184372088832) r"
    by blast
  from r have "Decimal r = Decimal (8003 / 200)"
    by (simp only: toFixed4_samples)
  then have "r = 8003 / 200"
    by (simp only: printed.inject)
  with rr have ok: "roundedTo4 (1407901125651301 / 35184372088832) (8003 / 200)"
    by (simp only:)
  have denied: "error (requestCurrentLocation ?d (zipState\<lparr>geolocating := True\<rparr>)) =
                  Some ''User denied Geolocation'' \<and>
                geolocating (requestCurrentLocation ?d (zipState\<lparr>geolocating := True\<rparr>)) = False"
    using h
      requestCurrentLocation_outcome
        [where e = ?d and s = "zipState\<lparr>geolocating := True\<rparr>"
           and msg = "''User denied Geolocation''" and q = 0]
    by simp
  show ?thesis
    using g h b c ok denied toFixed4_samples(1) by simp
qed

subsection \<open>A submit discards the previous search\<close>

text \<open>
  Claim C10. The submit action clears error, status, random hotspot and top hotspots and sets
  \<^verbatim>\<open>hasFetched\<close> to false before it validates. Its outcome therefore does not depend on what
  these five cells held, and the status is \<^verbatim>\<open>null\<close> after every submit. After a submit that
  fails validation, or whose request throws or returns an error status, no result is left:
  the random hotspot is \<^verbatim>\<open>null\<close>, the top hotspots are empty, \<^verbatim>\<open>hasFetched\<close> is false, and the
  error is the one of this submit. After a submit that succeeds the error is \<^verbatim>\<open>null\<close>, and the
  results are those of the payload alone: the list of the other mode is empty, the hotspot
  of the other mode \<^verbatim>\<open>null\<close>.
\<close>

theorem fetchHotspots_discards_previous:
  "fetchHotspots e (s\<lparr>error := er, status := st, randomHotspot := rh, topHotspots := th,
       hasFetched := hf\<rparr>) = fetchHotspots e s \<and>
   status (snd (fetchHotspots e s)) = None \<and>
   (invalidLocation s \<or> failed (fetch e (requestUrl e s)) \<longrightarrow>
      error (snd (fetchHotspots e s)) \<noteq> None \<and>
      randomHotspot (snd (fetchHotspots e s)) = None \<and>
      topHotspots (snd (fetchHotspots e s)) = [] \<and>
      hasFetched (snd (fetchHotspots e s)) = False) \<and>
   (invalidLocation s \<longrightarrow>
      error (snd (fetchHotspots e s)) =
        Some ''Enter a valid 5-digit ZIP code or allow location access.'') \<and>
   (\<not> invalidLocation s \<and> fetch e (requestUrl e s) = Resolves True (Payload p) \<longrightarrow>
      error (snd (fetchHotspots e s)) = None \<and>
      hasFetched (snd (fetchHotspots e s)) \<and>
      (mode s = Random \<longrightarrow>
         randomHotspot (snd (fetchHotspots e s)) = hotspot p \<and>
         topHotspots (snd (fetchHotspots e s)) = []) \<and>
      (mode s = Top \<longrightarrow>
         randomHotspot (snd (fetchHotspots e s)) = None \<and>
         topHotspots (snd (fetchHotspots e s)) =
           (case hotspots p of Some hs \<Rightarrow> hs | None \<Rightarrow> [])))"
proof (intro conjI impI)
  show "fetchHotspots e (s\<lparr>error := er, status := st, randomHotspot := rh, topHotspots := th,
       hasFetched := hf\<rparr>) = fetchHotspots e s"
    by (rule fetchHotspots_results)
  show "status (snd (fetchHotspots e s)) = None"
    by (simp add: fetchHotspots_def Let_def settle_status clearResults_def)
next
  assume f: "invalidLocation s \<or> failed (fetch e (requestUrl e s))"
  let ?s' = "snd (fetchHotspots e s)"
  have "error ?s' \<noteq> None \<and> randomHotspot ?s' = None \<and> topHotspots ?s' = [] \<and>
        hasFetched ?s' = False"
  proof (cases "invalidLocation s")
    case True
    then show ?thesis
      by (simp add: fetchHotspots_def Let_def clearResults_def)
  next
    case False
    with f have "failed (fetch e (requestUrl e s))"
      by simp
    from settle_failed [OF this] False show ?thesis
      by (simp add: fetchHotspots_def Let_def clearResults_def)
  qed
  then show "error ?s' \<noteq> None" and "randomHotspot ?s' = None" and "topHotspots ?s' = []"
    and "hasFetched ?s' = False"
    by simp_all
next
  assume "invalidLocation s"
  then show "error (snd (fetchHotspots e s)) =
      Some ''Enter a valid 5-digit ZIP code or allow location access.''"
    by (simp add: fetchHotspots_def Let_def)
next
  assume ok: "\<not> invalidLocation s \<and> fetch e (requestUrl e s) = Resolves True (Payload p)"
  then have r: "fetch e (requestUrl e s) = Resolves True (Payload p)"
    by simp
  let ?s' = "snd (fetchHotspots e s)"
  let ?s1 = "(clearResults s)\<lparr>loading := True\<rparr>"
  from ok have s': "?s' = settle (mode s) (fetch e (requestUrl e s)) ?s1"
    by (simp add: fetchHotspots_def Let_def)
  show "error ?s' = None"
    unfolding s' settle_succeeded(1) [OF r] by (simp add: clearResults_def)
  show "hasFetched ?s'"
    unfolding s' by (rule settle_succeeded(2) [OF r])
  {
    assume m: "mode s = Random"
    show "randomHotspot ?s' = hotspot p"
      unfolding s' by (rule settle_succeeded(3) [OF r m])
    show "topHotspots ?s' = []"
      unfolding s' settle_succeeded(4) [OF r m] by (simp add: clearResults_def)
  }
  {
    assume m: "mode s = Top"
    show "randomHotspot ?s' = None"
      unfolding s' settle_succeeded(5) [OF r m] by (simp add: clearResults_def)
    show "topHotspots ?s' = (case hotspots p of Some hs \<Rightarrow> hs | None \<Rightarrow> [])"
      unfolding s' by (rule settle_succeeded(6) [OF r m])
  }
qed

theorem fetchHotspots_discards_previous_witness:
  "randomHotspot searchedState = Some sawhillPonds \<and> hasFetched searchedState \<and>
   failed (fetch offline (requestUrl offline searchedState)) \<and>
   error (snd (fetchHotspots offline searchedState)) = Some ''Failed to fetch'' \<and>
   status (snd (fetchHotspots offline searchedState)) = None \<and>
   randomHotspot (snd (fetchHotspots offline searchedState)) = None \<and>
   topHotspots (snd (fetchHotspots offline searchedState)) = [] \<and>
   hasFetched (snd (fetchHotspots offline searchedState)) = False \<and>
   invalidLocation (searchedState\<lparr>postalCode := ''8030''\<rparr>) \<and>
   error (snd (fetchHotspots offline (searchedState\<lparr>postalCode := ''8030''\<rparr>))) =
     Some ''Enter a valid 5-digit ZIP code or allow location access.'' \<and>
   randomHotspot (snd (fetchHotspots offline (searchedState\<lparr>postalCode := ''8030''\<rparr>))) = None \<and>
   topHotspots (snd (fetchHotspots offline (searchedState\<lparr>postalCode := ''8030''\<rparr>))) = [] \<and>
   hasFetched (snd (fetchHotspots offline (searchedState\<lparr>postalCode := ''8030''\<rparr>))) = False \<and>
   mode (searchedState\<lparr>error := Some ''Invalid ZIP code''\<rparr>) = Random \<and>
   fetch (sampleEnv (Resolves True (Payload sawhillPayload)) None)
     (requestUrl (sampleEnv (Resolves True (Payload sawhillPayload)) None)
        (searchedState\<lparr>error := Some ''Invalid ZIP code''\<rparr>)) =
     Resolves True (Payload sawhillPayload) \<and>
   error (snd (fetchHotspots (sampleEnv (Resolves True (Payload sawhillPayload)) None)
     (searchedState\<lparr>error := Some ''Invalid ZIP code''\<rparr>))) = None \<and>
   randomHotspot (snd (fetchHotspots (sampleEnv (Resolves True (Payload sawhillPayload)) None)
     (searchedState\<lparr>error := Some ''Invalid ZIP code''\<rparr>))) = Some sawhillPonds \<and>
   topHotspots (snd (fetchHotspots (sampleEnv (Resolves True (Payload sawhillPayload)) None)
     (searchedState\<lparr>error := Some ''Invalid ZIP code''\<rparr>))) = []"
proof -
  let ?t = "searchedState\<lparr>postalCode := ''8030''\<rparr>"
  let ?u = "searchedState\<lparr>error := Some ''Invalid ZIP code''\<rparr>"
  let ?w = "sampleEnv (Resolves True (Payload sawhillPayload)) None"
  have p: "randomHotspot searchedState = Some sawhillPonds \<and> hasFetched searchedState"
    by (simp add: searchedState_def)
  have f: "failed (fetch offline (requestUrl offline searchedState))"
    by (simp add: offline_def sampleEnv_def failed_def)
  have i: "invalidLocation ?t"
    by (simp add: invalidLocation_def searchedState_def zipState_def initialState_def trim_def
        isWhiteSpace_def)
  have v: "\<not> invalidLocation searchedState"
    using zipState_valid by (simp add: invalidLocation_def searchedState_def)
  have vu: "\<not> invalidLocation ?u"
    using v by (simp add: invalidLocation_def)
  have mu: "mode ?u = Random"
    by (simp add: searchedState_def zipState_def initialState_def)
  have fu: "fetch ?w (requestUrl ?w ?u) = Resolves True (Payload sawhillPayload)"
    by (simp add: sampleEnv_def)
  have hp: "hotspot sawhillPayload = Some sawhillPonds"
    by (simp add: sawhillPayload_def)
  have m: "error (snd (fetchHotspots offline searchedState)) = Some ''Failed to fetch''"
    using v
    by (simp add: fetchHotspots_def Let_def settle_def tryBlock_def offline_def sampleEnv_def)
  show ?thesis
    using p f i m vu mu fu hp
      fetchHotspots_discards_previous [where e = offline and s = searchedState]
      fetchHotspots_discards_previous [where e = offline and s = ?t]
      fetchHotspots_discards_previous [where e = ?w and s = ?u and p = sawhillPayload]
    by simp
qed

end
